theory Spec2Isabelle
  imports Complex_Main
begin

section \<open>Data model\<close>

text \<open>
  The four enumerations are declared identically in all three source files.
  \<open>UsageFrequency\<close> and \<open>Importance\<close> both have a member \<open>LOW\<close>; as in the
  Python source they are told apart by qualification (\<open>UsageFrequency.LOW\<close>,
  \<open>Importance.LOW\<close>).
\<close>

datatype UsageFrequency = HIGH | MEDIUM | LOW

datatype ArtifactType = PHOTOGRAPH | DOCUMENT | VIDEO

datatype Importance = CRITICAL | STANDARD | LOW

datatype StorageTier = HOT | WARM | COLD

text \<open>
  A naive \<^verbatim>\<open>datetime.datetime\<close> has microsecond resolution and is modelled as the
  number of microseconds on its time line; the difference of two of them is a
  \<^verbatim>\<open>timedelta\<close>, again a number of microseconds (possibly negative). The fields
  \<^verbatim>\<open>id\<close> and \<^verbatim>\<open>type\<close> of an artifact are called \<open>artifact_id\<close> and
  \<open>artifact_type\<close> here.
\<close>

type_synonym datetime = int

type_synonym timedelta = int

definition microseconds_per_day :: int where
  "microseconds_per_day = 24 * 3600 * 1000000"

text \<open>
  \<^verbatim>\<open>timedelta.days\<close>: a timedelta is normalised to days, seconds in \<open>[0, 86400)\<close>
  and microseconds in \<open>[0, 10^6)\<close>, so \<^verbatim>\<open>.days\<close> is the floor of the duration in
  days (also for negative durations).
\<close>

definition days :: "timedelta \<Rightarrow> int" where
  "days d = d div microseconds_per_day"

record Artifact =
  artifact_id :: string
  name :: string
  artifact_type :: ArtifactType
  access_count :: int
  last_accessed :: datetime
  importance :: Importance

section \<open>Usage evaluation and tier classification (sds\_data\_classification.py)\<close>

text \<open>
  \<^verbatim>\<open>Artifact.get_usage_frequency\<close> reads the clock by \<^verbatim>\<open>datetime.datetime.now()\<close>;
  the value read is the first argument of the model.
\<close>

definition get_usage_frequency :: "datetime \<Rightarrow> Artifact \<Rightarrow> UsageFrequency" where
  "get_usage_frequency now a =
     (let days_since_access = days (now - last_accessed a) in
      if days_since_access > 30 then UsageFrequency.LOW
      else
        let accesses_per_month = access_count a in
        if accesses_per_month > 10 then HIGH
        else if accesses_per_month \<ge> 1 then MEDIUM
        else UsageFrequency.LOW)"

text \<open>
  The copy of the same method in sds\_retrieval\_performance\_test.py keeps
  \<^verbatim>\<open>last_accessed\<close> as a Unix timestamp in seconds and compares the fractional number
  of days, \<^verbatim>\<open>(time.time() - self.last_accessed) / (24 * 3600)\<close>, with 30. Timestamps
  are modelled as rationals.
\<close>

definition get_usage_frequency_unix :: "rat \<Rightarrow> int \<Rightarrow> rat \<Rightarrow> UsageFrequency" where
  "get_usage_frequency_unix now access_count' last_accessed' =
     (let days_since_access = (now - last_accessed') / (24 * 3600) in
      if days_since_access > 30 then UsageFrequency.LOW
      else
        let accesses_per_month = access_count' in
        if accesses_per_month > 10 then HIGH
        else if accesses_per_month \<ge> 1 then MEDIUM
        else UsageFrequency.LOW)"

text \<open>\<^verbatim>\<open>SDSClassifier.classify_and_assign\<close>; the classifier object has no fields.\<close>

definition classify_and_assign :: "datetime \<Rightarrow> Artifact \<Rightarrow> StorageTier" where
  "classify_and_assign now a =
     (let usage = get_usage_frequency now a in
      if importance a = CRITICAL \<or> usage = HIGH then HOT
      else if usage = MEDIUM \<or> importance a = STANDARD then WARM
      else COLD)"

text \<open>
  The rule of the tier classifier in the words of the specification, as a function of
  the pair of importance and usage frequency: Hot if importance is Critical or usage
  is High; otherwise Warm if usage is Medium or importance is Standard; otherwise Cold.
\<close>

definition classify_spec :: "Importance \<Rightarrow> UsageFrequency \<Rightarrow> StorageTier" where
  "classify_spec i u =
     (if i = CRITICAL \<or> u = HIGH then HOT
      else if u = MEDIUM \<or> i = STANDARD then WARM
      else COLD)"

section \<open>Storage resource manager (sds\_scalability\_test.py)\<close>

text \<open>
  The three dictionaries of \<^verbatim>\<open>StorageResourceManager\<close> are created with every member
  of their key enumeration as a key and no key is ever removed, so a lookup never raises
  \<^verbatim>\<open>KeyError\<close>: they are total functions on the enumeration. Python's numbers (the
  integers 100, 1, 5 and the floats 0.5, 0.8) are modelled as exact rationals. The
  source's binary floating point agrees with the exact arithmetic as long as the
  capacities are representable, which the constructor's capacities are up to 29
  scalings of a tier.
\<close>

record StorageResourceManager =
  capacities :: "StorageTier \<Rightarrow> rat"
  usage :: "StorageTier \<Rightarrow> rat"
  artifact_sizes :: "ArtifactType \<Rightarrow> rat"

text \<open>\<^verbatim>\<open>StorageResourceManager.__init__\<close>\<close>

definition StorageResourceManager_init :: StorageResourceManager where
  "StorageResourceManager_init =
     \<lparr>capacities = (\<lambda>t. case t of HOT \<Rightarrow> 100 | WARM \<Rightarrow> 500 | COLD \<Rightarrow> 1000),
      usage = (\<lambda>t. case t of HOT \<Rightarrow> 0 | WARM \<Rightarrow> 0 | COLD \<Rightarrow> 0),
      artifact_sizes = (\<lambda>ty. case ty of PHOTOGRAPH \<Rightarrow> 1 | DOCUMENT \<Rightarrow> 1 / 2 | VIDEO \<Rightarrow> 5)\<rparr>"

text \<open>\<^verbatim>\<open>adjust_resources\<close>; the line it prints is not part of the manager's state.\<close>

definition adjust_resources :: "StorageResourceManager \<Rightarrow> StorageTier \<Rightarrow> StorageResourceManager" where
  "adjust_resources m tier =
     (let increase = capacities m tier * (1 / 2) in
      m\<lparr>capacities := (capacities m)(tier := capacities m tier + increase)\<rparr>)"

text \<open>\<^verbatim>\<open>add_artifact\<close> returns the updated manager together with the boolean result.\<close>

definition add_artifact ::
  "StorageResourceManager \<Rightarrow> Artifact \<Rightarrow> StorageTier \<Rightarrow> StorageResourceManager \<times> bool" where
  "add_artifact m artifact tier =
     (let size = artifact_sizes m (artifact_type artifact);
          m1 = (if usage m tier + size > capacities m tier * (8 / 10)
                then adjust_resources m tier else m)
      in if usage m1 tier + size \<le> capacities m1 tier
         then (m1\<lparr>usage := (usage m1)(tier := usage m1 tier + size)\<rparr>, True)
         else (m1, False))"

text \<open>\<^verbatim>\<open>get_usage_stats\<close> returns copies of the two dictionaries and changes nothing.\<close>

definition get_usage_stats ::
  "StorageResourceManager \<Rightarrow> (StorageTier \<Rightarrow> rat) \<times> (StorageTier \<Rightarrow> rat)" where
  "get_usage_stats m = (capacities m, usage m)"

text \<open>
  A sequence of \<^verbatim>\<open>add_artifact\<close> calls on one manager, as issued by the loop of
  \<^verbatim>\<open>ScalabilityTester.run_test\<close>: \<open>place_all\<close> is the manager after the last call,
  \<open>observed\<close> lists the manager as it stands after each call.
\<close>

fun place_all ::
  "StorageResourceManager \<Rightarrow> (Artifact \<times> StorageTier) list \<Rightarrow> StorageResourceManager" where
  "place_all m [] = m"
| "place_all m ((a, t) # calls) = place_all (fst (add_artifact m a t)) calls"

fun observed ::
  "StorageResourceManager \<Rightarrow> (Artifact \<times> StorageTier) list \<Rightarrow> StorageResourceManager list" where
  "observed m [] = []"
| "observed m ((a, t) # calls) =
     fst (add_artifact m a t) # observed (fst (add_artifact m a t)) calls"




text \<open>Concrete artifacts and managers used in the examples below.\<close>

definition video_artifact :: Artifact where
  "video_artifact =
     \<lparr>artifact_id = ''A0001'', name = ''Artifact_1.video'', artifact_type = VIDEO,
      access_count = 15, last_accessed = 0, importance = CRITICAL\<rparr>"

text \<open>Hot tier with capacity 100 and 75 units used (Scenario D of the specification).\<close>

definition scenario_D_manager :: StorageResourceManager where
  "scenario_D_manager =
     StorageResourceManager_init\<lparr>usage := (usage StorageResourceManager_init)(HOT := 75)\<rparr>"


text \<open>
  An artifact whose last access lies 30 days and 12 hours before the clock reading
  \<open>stale_now\<close>, and an artifact with a negative access count.
\<close>

definition stale_artifact :: Artifact where
  "stale_artifact =
     \<lparr>artifact_id = ''A0002'', name = ''Artifact_2.photograph'', artifact_type = PHOTOGRAPH,
      access_count = 15, last_accessed = 0, importance = Importance.LOW\<rparr>"

definition stale_now :: datetime where
  "stale_now = 30 * microseconds_per_day + 12 * 3600 * 1000000"

definition notes_artifact :: Artifact where
  "notes_artifact =
     \<lparr>artifact_id = ''A002'', name = ''Meeting_Notes.pdf'', artifact_type = DOCUMENT,
      access_count = 3, last_accessed = 0, importance = STANDARD\<rparr>"

definition negative_artifact :: Artifact where
  "negative_artifact =
     \<lparr>artifact_id = ''A0003'', name = ''Artifact_3.document'', artifact_type = DOCUMENT,
      access_count = - 1, last_accessed = 0, importance = STANDARD\<rparr>"

text \<open>The invariant of the manager: no tier is over capacity, no capacity is negative.\<close>

definition within_capacity :: "StorageResourceManager \<Rightarrow> bool" where
  "within_capacity m = (\<forall>t. usage m t \<le> capacities m t \<and> 0 \<le> capacities m t)"

text \<open>
  A manager in which every tier has room for twice the largest artifact size; the
  manager built by the constructor is one.
\<close>

definition spacious :: "StorageResourceManager \<Rightarrow> bool" where
  "spacious m = (within_capacity m \<and> (\<forall>t ty. 2 * artifact_sizes m ty \<le> capacities m t))"

section \<open>Retrieval admission control (sds\_retrieval\_performance\_test.py)\<close>

text \<open>
  \<^verbatim>\<open>StorageBackend\<close>. The \<^verbatim>\<open>asyncio.Lock\<close> is only ever held across code without an
  \<^verbatim>\<open>await\<close>, so under asyncio's cooperative scheduling it is free whenever a task
  runs: acquiring it never suspends, and each \<^verbatim>\<open>async with self.lock\<close> block is one
  atomic step. The lock itself is therefore not a field of the model.
\<close>

record StorageBackend =
  latencies :: "StorageTier \<Rightarrow> rat"
  max_concurrent_requests :: int
  current_requests :: int

text \<open>\<^verbatim>\<open>StorageBackend.__init__\<close>\<close>

definition StorageBackend_init :: StorageBackend where
  "StorageBackend_init =
     \<lparr>latencies = (\<lambda>t. case t of HOT \<Rightarrow> 10 / 1000 | WARM \<Rightarrow> 50 / 1000 | COLD \<Rightarrow> 200 / 1000),
      max_concurrent_requests = 1000,
      current_requests = 0\<rparr>"

text \<open>
  The exceptions that leave \<^verbatim>\<open>retrieve_artifact\<close>: the \<^verbatim>\<open>RuntimeError\<close> raised at
  admission, and \<^verbatim>\<open>asyncio.CancelledError\<close>, raised inside \<^verbatim>\<open>await asyncio.sleep\<close>
  when the task is cancelled while it is suspended.
\<close>

datatype error = RuntimeError string | CancelledError

definition system_overloaded :: error where
  "system_overloaded = RuntimeError ''System overloaded: too many concurrent requests''"

text \<open>How \<^verbatim>\<open>await asyncio.sleep(latency)\<close> ends.\<close>

datatype sleep_result = Slept | Cancelled

text \<open>The first \<^verbatim>\<open>async with self.lock\<close> block: admission check and increment.\<close>

definition admit :: "StorageBackend \<Rightarrow> error + StorageBackend" where
  "admit b =
     (if current_requests b \<ge> max_concurrent_requests b then Inl system_overloaded
      else Inr (b\<lparr>current_requests := current_requests b + 1\<rparr>))"

text \<open>The \<^verbatim>\<open>finally\<close> block: decrement.\<close>

definition release :: "StorageBackend \<Rightarrow> StorageBackend" where
  "release b = b\<lparr>current_requests := current_requests b - 1\<rparr>"

text \<open>
  One call of \<^verbatim>\<open>retrieve_artifact\<close> with no other task running in between. The value
  drawn by \<^verbatim>\<open>random.uniform(0.9, 1.1)\<close> and the way the sleep ends are arguments. A
  rejected call raises before the \<^verbatim>\<open>try\<close>, so its \<^verbatim>\<open>finally\<close> block does not run.
\<close>

definition retrieve_artifact ::
  "StorageBackend \<Rightarrow> string \<Rightarrow> StorageTier \<Rightarrow> rat \<Rightarrow> sleep_result
     \<Rightarrow> StorageBackend \<times> (error + rat)" where
  "retrieve_artifact b artifact_id' tier jitter slept =
     (case admit b of
        Inl e \<Rightarrow> (b, Inl e)
      | Inr b1 \<Rightarrow>
          (let base_latency = latencies b1 tier;
               latency = base_latency * jitter
           in (release b1,
               case slept of Slept \<Rightarrow> Inr latency | Cancelled \<Rightarrow> Inl CancelledError)))"

text \<open>
  Concurrent calls, as created by \<^verbatim>\<open>asyncio.create_task\<close> in
  \<^verbatim>\<open>RetrievalPerformanceTester.run_test\<close>. A call is \<open>Idle\<close> until it first runs; it
  then either raises at admission or is \<open>Serving\<close>, suspended in the sleep; when it is
  resumed it runs the \<^verbatim>\<open>finally\<close> block and returns or raises. The event loop picks
  the order: an event names the call that runs next, and an event for a call that is
  not in the matching phase changes nothing.
\<close>

datatype phase = Idle | Serving | Returned | Raised error

datatype event = Start nat | Resume nat sleep_result

record system =
  backend :: StorageBackend
  tasks :: "phase list"

fun step :: "system \<Rightarrow> event \<Rightarrow> system" where
  "step s (Start i) =
     (if i < length (tasks s) \<and> tasks s ! i = Idle then
        (case admit (backend s) of
           Inl e \<Rightarrow> s\<lparr>tasks := (tasks s)[i := Raised e]\<rparr>
         | Inr b \<Rightarrow> s\<lparr>backend := b, tasks := (tasks s)[i := Serving]\<rparr>)
      else s)"
| "step s (Resume i r) =
     (if i < length (tasks s) \<and> tasks s ! i = Serving then
        s\<lparr>backend := release (backend s),
          tasks := (tasks s)
            [i := (case r of Slept \<Rightarrow> Returned | Cancelled \<Rightarrow> Raised CancelledError)]\<rparr>
      else s)"

text \<open>The system as it stands after each event of a schedule.\<close>

fun run :: "system \<Rightarrow> event list \<Rightarrow> system list" where
  "run s [] = []"
| "run s (e # es) = step s e # run (step s e) es"

text \<open>The number of calls that have been admitted and have not yet finished.\<close>

definition serving :: "system \<Rightarrow> nat" where
  "serving s = length (filter (\<lambda>p. p = Serving) (tasks s))"

definition slack :: "system \<Rightarrow> int" where
  "slack s = current_requests (backend s) - int (serving s)"

text \<open>A fresh backend with \<open>n\<close> calls created and none started.\<close>

definition init_system :: "nat \<Rightarrow> system" where
  "init_system n = \<lparr>backend = StorageBackend_init, tasks = replicate n Idle\<rparr>"

text \<open>A backend whose in-flight counter has reached the limit.\<close>

definition full_backend :: StorageBackend where
  "full_backend = StorageBackend_init\<lparr>current_requests := 1000\<rparr>"

section \<open>Properties of the usage evaluator and the tier classifier\<close>

lemma microseconds_per_day_pos: "0 < microseconds_per_day"
  by (simp add: microseconds_per_day_def)

lemma days_greater_iff: "days d > 30 \<longleftrightarrow> d \<ge> 31 * microseconds_per_day"
proof -
  let ?k = "microseconds_per_day"
  have "(d + (- 30) * ?k) div ?k = - 30 + d div ?k"
    using microseconds_per_day_pos by (intro div_mult_self1) simp
  then have shift: "(d - 30 * ?k) div ?k = d div ?k - 30"
    by simp
  have "30 < d div ?k \<longleftrightarrow> 0 < (d - 30 * ?k) div ?k"
    unfolding shift by arith
  also have "\<dots> \<longleftrightarrow> ?k \<le> d - 30 * ?k"
    using microseconds_per_day_pos by (rule pos_imp_zdiv_pos_iff)
  also have "\<dots> \<longleftrightarrow> 31 * ?k \<le> d"
    by arith
  finally show ?thesis
    by (simp add: days_def)
qed

text \<open>
  What the method of sds\_data\_classification.py computes: the recency test is on whole
  elapsed days, so it answers Low for recency only from 31 full days on.
\<close>

lemma get_usage_frequency_whole_days:
  "get_usage_frequency now a =
     (if now - last_accessed a \<ge> 31 * microseconds_per_day then UsageFrequency.LOW
      else if access_count a > 10 then HIGH
      else if access_count a \<ge> 1 then MEDIUM
      else UsageFrequency.LOW)"
  by (simp add: get_usage_frequency_def Let_def days_greater_iff)

text \<open>
  The copy of the method in sds\_retrieval\_performance\_test.py compares the exact
  elapsed time with 30 days.
\<close>

lemma get_usage_frequency_unix_exact:
  "get_usage_frequency_unix now c l =
     (if now - l > 30 * (24 * 3600) then UsageFrequency.LOW
      else if c > 10 then HIGH
      else if c \<ge> 1 then MEDIUM
      else UsageFrequency.LOW)"
  by (simp add: get_usage_frequency_unix_def Let_def)

lemma usage_importance_pair_attained:
  "\<exists>now a. importance a = i \<and> get_usage_frequency now a = u"
proof -
  let ?a = "\<lambda>c. \<lparr>artifact_id = ''A'', name = ''N'', artifact_type = VIDEO,
      access_count = c, last_accessed = 0, importance = i\<rparr>"
  have "get_usage_frequency 0 (?a 11) = HIGH" "get_usage_frequency 0 (?a 1) = MEDIUM"
    "get_usage_frequency 0 (?a 0) = UsageFrequency.LOW"
    by (simp_all add: get_usage_frequency_whole_days microseconds_per_day_def)
  then have "\<exists>c. get_usage_frequency 0 (?a c) = u"
    by (cases u) blast+
  then obtain c where "get_usage_frequency 0 (?a c) = u" ..
  moreover have "importance (?a c) = i" by simp
  ultimately show ?thesis by blast
qed

text \<open>
  C5: the tier returned by \<^verbatim>\<open>classify_and_assign\<close> is the specification's rule applied
  to the artifact's importance and its usage frequency: Hot if importance is Critical or
  usage is High, otherwise Warm if usage is Medium or importance is Standard, otherwise
  Cold. Hence Critical importance yields Hot, High usage yields Hot, Standard importance
  never yields Cold, and two calls that see the same importance and the same usage
  return the same tier.
\<close>

theorem classify_and_assign_rule:
  "classify_and_assign now a = classify_spec (importance a) (get_usage_frequency now a) \<and>
   (importance a = CRITICAL \<longrightarrow> classify_and_assign now a = HOT) \<and>
   (get_usage_frequency now a = HIGH \<longrightarrow> classify_and_assign now a = HOT) \<and>
   (importance a = STANDARD \<longrightarrow> classify_and_assign now a \<noteq> COLD) \<and>
   (importance a = importance a' \<and> get_usage_frequency now a = get_usage_frequency now' a'
      \<longrightarrow> classify_and_assign now a = classify_and_assign now' a')"
proof -
  have rule: "classify_and_assign n x = classify_spec (importance x) (get_usage_frequency n x)"
    for n x
    unfolding classify_and_assign_def classify_spec_def Let_def by (rule refl)
  have same: "classify_and_assign now a = classify_and_assign now' a'"
    if "importance a = importance a' \<and> get_usage_frequency now a = get_usage_frequency now' a'"
    unfolding rule using that by (elim conjE) (erule ssubst, erule ssubst, rule refl)
  have hot1: "importance a = CRITICAL \<longrightarrow> classify_and_assign now a = HOT"
    unfolding rule classify_spec_def by simp
  have hot2: "get_usage_frequency now a = HIGH \<longrightarrow> classify_and_assign now a = HOT"
    unfolding rule classify_spec_def by simp
  have warm: "importance a = STANDARD \<longrightarrow> classify_and_assign now a \<noteq> COLD"
    unfolding rule classify_spec_def by simp
  from rule [of now a] hot1 hot2 warm same show ?thesis
    by blast
qed

theorem classify_and_assign_rule_witness:
  "importance video_artifact = CRITICAL \<and>
   get_usage_frequency 0 video_artifact = HIGH \<and>
   classify_and_assign 0 video_artifact = HOT \<and>
   importance notes_artifact = STANDARD \<and>
   get_usage_frequency 0 notes_artifact = MEDIUM \<and>
   classify_and_assign 0 notes_artifact = WARM \<and>
   classify_and_assign 0 notes_artifact \<noteq> COLD \<and>
   classify_and_assign 0 video_artifact = classify_and_assign 0 video_artifact"
  using classify_and_assign_rule [of 0 video_artifact video_artifact 0]
    classify_and_assign_rule [of 0 notes_artifact notes_artifact 0]
  by (simp add: video_artifact_def notes_artifact_def get_usage_frequency_whole_days
      microseconds_per_day_def classify_spec_def)

text \<open>
  C6: the usage evaluator should answer Low whenever more than 30 days have passed since
  the last access, whatever the access count, and otherwise High above 10 accesses,
  Medium from 1 access, else Low. The method of sds\_data\_classification.py truncates
  the elapsed time to whole days first: 30 days and 12 hours after the last access,
  with 15 accesses, it answers High. The copy of the method in
  sds\_retrieval\_performance\_test.py answers Low for the same elapsed time.
\<close>

theorem get_usage_frequency_truncates_days:
  "stale_now - last_accessed stale_artifact > 30 * microseconds_per_day \<and>
   get_usage_frequency stale_now stale_artifact = HIGH \<and>
   get_usage_frequency_unix (30 * (24 * 3600) + 12 * 3600) (access_count stale_artifact) 0
     = UsageFrequency.LOW"
  by (simp add: get_usage_frequency_whole_days get_usage_frequency_unix_exact
      stale_now_def stale_artifact_def microseconds_per_day_def)

theorem get_usage_frequency_negative_count_counterexample:
  "access_count negative_artifact < 0 \<and>
   get_usage_frequency 0 negative_artifact = UsageFrequency.LOW"
  by (simp add: get_usage_frequency_whole_days negative_artifact_def microseconds_per_day_def)

text \<open>
  C7 (amended): the usage evaluator performs no validation and raises no error; for
  every artifact with a negative access count it returns the classification Low.
\<close>

theorem get_usage_frequency_negative_count:
  "access_count a < 0 \<Longrightarrow> get_usage_frequency now a = UsageFrequency.LOW"
  by (simp add: get_usage_frequency_whole_days)

theorem get_usage_frequency_negative_count_witness:
  "access_count negative_artifact < 0 \<and>
   get_usage_frequency 5 negative_artifact = UsageFrequency.LOW"
  using get_usage_frequency_negative_count [of negative_artifact 5]
  by (simp add: negative_artifact_def)

section \<open>Properties of the storage resource manager\<close>

lemma capacities_adjust_resources:
  "capacities (adjust_resources m t) = (capacities m)(t := capacities m t * (3 / 2))"
  by (simp add: adjust_resources_def Let_def fun_eq_iff)

lemma usage_adjust_resources [simp]: "usage (adjust_resources m t) = usage m"
  by (simp add: adjust_resources_def Let_def)

lemma artifact_sizes_adjust_resources [simp]:
  "artifact_sizes (adjust_resources m t) = artifact_sizes m"
  by (simp add: adjust_resources_def Let_def)

lemma capacities_add_artifact:
  "capacities (fst (add_artifact m a t)) =
     (if usage m t + artifact_sizes m (artifact_type a) > capacities m t * (8 / 10)
      then (capacities m)(t := capacities m t * (3 / 2)) else capacities m)"
  by (simp add: add_artifact_def Let_def capacities_adjust_resources)

lemma usage_add_artifact:
  "usage (fst (add_artifact m a t)) =
     (if snd (add_artifact m a t)
      then (usage m)(t := usage m t + artifact_sizes m (artifact_type a)) else usage m)"
  by (simp add: add_artifact_def Let_def)

lemma artifact_sizes_add_artifact [simp]:
  "artifact_sizes (fst (add_artifact m a t)) = artifact_sizes m"
  by (simp add: add_artifact_def Let_def)

lemma snd_add_artifact:
  "snd (add_artifact m a t) \<longleftrightarrow>
     usage m t + artifact_sizes m (artifact_type a) \<le> capacities (fst (add_artifact m a t)) t"
  by (simp add: add_artifact_def Let_def)

lemma within_capacity_adjust_resources:
  "within_capacity m \<Longrightarrow> within_capacity (adjust_resources m t)"
  unfolding within_capacity_def capacities_adjust_resources usage_adjust_resources
proof (intro allI)
  fix u
  assume inv: "\<forall>t. usage m t \<le> capacities m t \<and> 0 \<le> capacities m t"
  then have "usage m u \<le> capacities m u" "0 \<le> capacities m u"
    "usage m t \<le> capacities m t" "0 \<le> capacities m t"
    by simp_all
  then show "usage m u \<le> ((capacities m)(t := capacities m t * (3 / 2))) u \<and>
      0 \<le> ((capacities m)(t := capacities m t * (3 / 2))) u"
    by (cases "u = t") auto
qed

lemma within_capacity_commit:
  "within_capacity m \<Longrightarrow> usage m t + s \<le> capacities m t \<Longrightarrow>
   within_capacity (m\<lparr>usage := (usage m)(t := usage m t + s)\<rparr>)"
  by (simp add: within_capacity_def)

lemma within_capacity_add_artifact:
  assumes "within_capacity m"
  shows "within_capacity (fst (add_artifact m a t))"
proof -
  let ?size = "artifact_sizes m (artifact_type a)"
  let ?m1 = "if usage m t + ?size > capacities m t * (8 / 10) then adjust_resources m t else m"
  have m1: "within_capacity ?m1"
    using assms by (simp add: within_capacity_adjust_resources)
  have eq: "add_artifact m a t =
      (if usage ?m1 t + ?size \<le> capacities ?m1 t
       then (?m1\<lparr>usage := (usage ?m1)(t := usage ?m1 t + ?size)\<rparr>, True) else (?m1, False))"
    by (simp add: add_artifact_def Let_def)
  show ?thesis
  proof (cases "usage ?m1 t + ?size \<le> capacities ?m1 t")
    case True
    then have "fst (add_artifact m a t) = ?m1\<lparr>usage := (usage ?m1)(t := usage ?m1 t + ?size)\<rparr>"
      using eq by simp
    moreover have "within_capacity (?m1\<lparr>usage := (usage ?m1)(t := usage ?m1 t + ?size)\<rparr>)"
      using m1 True by (rule within_capacity_commit)
    ultimately show ?thesis by simp
  next
    case False
    then have "fst (add_artifact m a t) = ?m1" using eq by simp
    then show ?thesis using m1 by simp
  qed
qed

lemma within_capacity_init: "within_capacity StorageResourceManager_init"
  by (simp add: within_capacity_def StorageResourceManager_init_def split: StorageTier.split)

lemma within_capacity_observed:
  "within_capacity m \<Longrightarrow> m' \<in> set (observed m calls) \<Longrightarrow> within_capacity m'"
proof (induction calls arbitrary: m)
  case Nil
  then show ?case by simp
next
  case (Cons c calls)
  obtain a t where c: "c = (a, t)" by (cases c)
  from Cons.prems(2) c
  consider "m' = fst (add_artifact m a t)" | "m' \<in> set (observed (fst (add_artifact m a t)) calls)"
    by auto
  then show ?case
  proof cases
    case 1
    then show ?thesis using Cons.prems(1) by (simp add: within_capacity_add_artifact)
  next
    case 2
    then show ?thesis
      using Cons.IH [OF within_capacity_add_artifact [OF Cons.prems(1)]] by simp
  qed
qed
lemma capacities_nonneg_mono_add:
  "0 \<le> capacities m u \<Longrightarrow> capacities m u \<le> capacities (fst (add_artifact m a t)) u"
  by (auto simp: capacities_add_artifact)





lemma add_artifact_succeeds:
  "usage m t \<le> capacities m t \<Longrightarrow> 0 \<le> capacities m t \<Longrightarrow>
   2 * artifact_sizes m (artifact_type a) \<le> capacities m t \<Longrightarrow> snd (add_artifact m a t)"
  by (simp add: snd_add_artifact capacities_add_artifact)

lemma spacious_add_artifact: "spacious m \<Longrightarrow> spacious (fst (add_artifact m a t))"
  unfolding spacious_def
proof (intro conjI allI)
  assume sp: "within_capacity m \<and> (\<forall>t ty. 2 * artifact_sizes m ty \<le> capacities m t)"
  then show "within_capacity (fst (add_artifact m a t))"
    by (simp add: within_capacity_add_artifact)
  fix u ty
  from sp have "0 \<le> capacities m u" by (simp add: within_capacity_def)
  then have "capacities m u \<le> capacities (fst (add_artifact m a t)) u"
    by (rule capacities_nonneg_mono_add)
  moreover from sp have "2 * artifact_sizes m ty \<le> capacities m u" by simp
  ultimately show "2 * artifact_sizes (fst (add_artifact m a t)) ty
      \<le> capacities (fst (add_artifact m a t)) u"
    by simp
qed

lemma spacious_init: "spacious StorageResourceManager_init"
  by (simp add: spacious_def within_capacity_init)
    (simp add: StorageResourceManager_init_def split: StorageTier.split ArtifactType.split)

lemma spacious_place_all: "spacious m \<Longrightarrow> spacious (place_all m calls)"
  by (induction m calls rule: place_all.induct) (simp_all add: spacious_add_artifact)

lemma place_from_init_succeeds:
  "snd (add_artifact (place_all StorageResourceManager_init calls) a t)"
proof -
  have "spacious (place_all StorageResourceManager_init calls)"
    using spacious_init by (rule spacious_place_all)
  then show ?thesis
    by (intro add_artifact_succeeds) (simp_all add: spacious_def within_capacity_def)
qed

text \<open>
  The manager of Scenario D is reached from the constructor's state by placing 15
  videos into the hot tier.
\<close>

lemma scenario_D_reachable:
  "usage (place_all StorageResourceManager_init (replicate 15 (video_artifact, HOT))) t
     = usage scenario_D_manager t \<and>
   capacities (place_all StorageResourceManager_init (replicate 15 (video_artifact, HOT))) t
     = capacities scenario_D_manager t"
proof (cases t)
  case HOT
  show ?thesis unfolding HOT by code_simp
next
  case WARM
  show ?thesis unfolding WARM by code_simp
next
  case COLD
  show ?thesis unfolding COLD by code_simp
qed

text \<open>
  C1: starting from the manager built by the constructor, after every call of any
  sequence of \<^verbatim>\<open>add_artifact\<close> calls, the usage of every tier is at most its capacity.
\<close>

theorem place_keeps_usage_within_capacity:
  "m \<in> set (observed StorageResourceManager_init calls) \<Longrightarrow> usage m tier \<le> capacities m tier"
  using within_capacity_observed [OF within_capacity_init, of m calls]
  by (simp add: within_capacity_def)

theorem place_keeps_usage_within_capacity_witness:
  "fst (add_artifact StorageResourceManager_init video_artifact HOT)
     \<in> set (observed StorageResourceManager_init [(video_artifact, HOT), (video_artifact, COLD)])
   \<and> usage (fst (add_artifact StorageResourceManager_init video_artifact HOT)) HOT
     \<le> capacities (fst (add_artifact StorageResourceManager_init video_artifact HOT)) HOT"
  using place_keeps_usage_within_capacity
    [of "fst (add_artifact StorageResourceManager_init video_artifact HOT)"
        "[(video_artifact, HOT), (video_artifact, COLD)]" HOT]
  by simp








text \<open>
  C10: a call of \<^verbatim>\<open>add_artifact\<close> for tier \<open>t\<close> leaves the usage and the capacity of
  every other tier, and the size table, as they were.
\<close>

theorem add_artifact_frame:
  "u \<noteq> t \<Longrightarrow>
   usage (fst (add_artifact m a t)) u = usage m u \<and>
   capacities (fst (add_artifact m a t)) u = capacities m u \<and>
   artifact_sizes (fst (add_artifact m a t)) = artifact_sizes m"
  by (simp add: usage_add_artifact capacities_add_artifact)

theorem add_artifact_frame_witness:
  "WARM \<noteq> HOT \<and>
   usage (fst (add_artifact StorageResourceManager_init video_artifact HOT)) WARM = 0 \<and>
   capacities (fst (add_artifact StorageResourceManager_init video_artifact HOT)) WARM = 500 \<and>
   artifact_sizes (fst (add_artifact StorageResourceManager_init video_artifact HOT)) VIDEO = 5"
  using add_artifact_frame [of WARM HOT StorageResourceManager_init video_artifact]
  by (simp add: StorageResourceManager_init_def)

section \<open>Properties of the retrieval admission control\<close>

lemma length_filter_update:
  "i < length xs \<Longrightarrow>
   int (length (filter P (xs[i := v]))) =
     int (length (filter P xs)) - of_bool (P (xs ! i)) + of_bool (P v)"
proof (induction xs arbitrary: i)
  case Nil
  then show ?case by simp
next
  case (Cons x xs)
  show ?case
  proof (cases i)
    case 0
    then show ?thesis by simp
  next
    case (Suc j)
    with Cons.prems have "j < length xs" by simp
    from Cons.IH [OF this] Suc show ?thesis by simp
  qed
qed

lemma max_step [simp]:
  "max_concurrent_requests (backend (step s e)) = max_concurrent_requests (backend s)"
  by (cases e) (auto simp: admit_def release_def split: sum.splits if_splits)

lemma bounded_step:
  "current_requests (backend s) \<le> max_concurrent_requests (backend s) \<Longrightarrow>
   current_requests (backend (step s e)) \<le> max_concurrent_requests (backend s)"
  by (cases e) (auto simp: admit_def release_def split: sum.splits if_splits)

text \<open>
  Every step keeps the difference between the counter and the number of calls being
  served: admission adds one to both, the \<^verbatim>\<open>finally\<close> block takes one from both, a
  rejection touches neither.
\<close>

lemma slack_step: "slack (step s e) = slack s"
proof (cases e)
  case (Start i)
  show ?thesis
  proof (cases "i < length (tasks s) \<and> tasks s ! i = Idle")
    case True
    then show ?thesis
      using Start length_filter_update [of i "tasks s" "\<lambda>p. p = Serving"]
      by (auto simp: slack_def serving_def admit_def split: sum.splits if_splits)
  next
    case False
    then show ?thesis using Start by auto
  qed
next
  case (Resume i r)
  show ?thesis
  proof (cases "i < length (tasks s) \<and> tasks s ! i = Serving")
    case True
    then show ?thesis
      using Resume length_filter_update [of i "tasks s" "\<lambda>p. p = Serving"]
      by (auto simp: slack_def serving_def release_def split: sleep_result.splits)
  next
    case False
    then show ?thesis using Resume by auto
  qed
qed

lemma run_invariants:
  "current_requests (backend s0) \<le> max_concurrent_requests (backend s0) \<Longrightarrow>
   s \<in> set (run s0 evs) \<Longrightarrow>
   current_requests (backend s) \<le> max_concurrent_requests (backend s) \<and>
   max_concurrent_requests (backend s) = max_concurrent_requests (backend s0) \<and>
   slack s = slack s0"
proof (induction evs arbitrary: s0)
  case Nil
  then show ?case by simp
next
  case (Cons e evs)
  have b: "current_requests (backend (step s0 e)) \<le> max_concurrent_requests (backend (step s0 e))"
    using bounded_step [OF Cons.prems(1), of e] by simp
  from Cons.prems(2) consider "s = step s0 e" | "s \<in> set (run (step s0 e) evs)"
    by auto
  then show ?case
  proof cases
    case 1
    then show ?thesis using b by (simp add: slack_step)
  next
    case 2
    from Cons.IH [OF b 2] show ?thesis by (simp add: slack_step)
  qed
qed

lemma call_restores_counter:
  "current_requests (fst (retrieve_artifact b i tier jitter r)) = current_requests b"
  by (simp add: retrieve_artifact_def admit_def release_def Let_def)

lemma overload_iff_at_limit:
  "snd (retrieve_artifact b i tier jitter r) = Inl system_overloaded \<longleftrightarrow>
     current_requests b \<ge> max_concurrent_requests b"
  by (simp add: retrieve_artifact_def admit_def release_def Let_def system_overloaded_def
      split: sleep_result.split)

lemma rejected_call_unchanged:
  "snd (retrieve_artifact b i tier jitter r) = Inl system_overloaded \<Longrightarrow>
   fst (retrieve_artifact b i tier jitter r) = b"
  by (simp add: retrieve_artifact_def admit_def release_def Let_def system_overloaded_def
      split: sleep_result.splits if_splits)

text \<open>
  A call that is started and resumed with no other call in between changes the backend
  as \<open>retrieve_artifact\<close> does.
\<close>

lemma retrieve_artifact_as_steps:
  assumes "i < length (tasks s)" "tasks s ! i = Idle"
  shows "backend (step (step s (Start i)) (Resume i r))
     = fst (retrieve_artifact (backend s) artifact_id' tier jitter r)"
  using assms
  by (auto simp: retrieve_artifact_def admit_def release_def Let_def split: sum.splits)

text \<open>
  C2: in every schedule of concurrent \<^verbatim>\<open>retrieve_artifact\<close> calls that starts with the
  counter within the limit, after every step the counter \<^verbatim>\<open>current_requests\<close> is at most
  \<^verbatim>\<open>max_concurrent_requests\<close>, and the counter exceeds its starting value by exactly the
  number of calls admitted and not yet finished, so every increment is undone by exactly
  one decrement, whether the call returns or is cancelled during the sleep. A call taken
  alone leaves the counter at the value it had before, whether it is rejected, returns
  or is cancelled.
\<close>

theorem in_flight_bounded_and_released:
  assumes "current_requests (backend s0) \<le> max_concurrent_requests (backend s0)"
    and "s \<in> set (run s0 evs)"
  shows "current_requests (backend s) \<le> max_concurrent_requests (backend s) \<and>
    current_requests (backend s) - int (serving s)
      = current_requests (backend s0) - int (serving s0) \<and>
    current_requests (fst (retrieve_artifact b i tier jitter r)) = current_requests b"
  using run_invariants [OF assms] call_restores_counter [of b i tier jitter r]
  by (simp add: slack_def)

theorem in_flight_bounded_and_released_witness:
  "current_requests (backend (init_system 2))
     \<le> max_concurrent_requests (backend (init_system 2)) \<and>
   step (step (step (init_system 2) (Start 0)) (Start 1)) (Resume 0 Cancelled)
     \<in> set (run (init_system 2) [Start 0, Start 1, Resume 0 Cancelled, Resume 1 Slept]) \<and>
   current_requests
     (backend (step (step (step (init_system 2) (Start 0)) (Start 1)) (Resume 0 Cancelled))) = 1 \<and>
   serving (step (step (step (init_system 2) (Start 0)) (Start 1)) (Resume 0 Cancelled)) = 1 \<and>
   current_requests (fst (retrieve_artifact StorageBackend_init ''A0001'' HOT 1 Cancelled)) = 0"
proof -
  let ?s = "step (step (step (init_system 2) (Start 0)) (Start 1)) (Resume 0 Cancelled)"
  have start: "current_requests (backend (init_system 2))
      \<le> max_concurrent_requests (backend (init_system 2))"
    by (simp add: init_system_def StorageBackend_init_def)
  have mem: "?s \<in> set (run (init_system 2) [Start 0, Start 1, Resume 0 Cancelled, Resume 1 Slept])"
    by (simp only: run.simps list.set insertI1 insertI2)
  have tasks2: "replicate 2 Idle = [Idle, Idle]"
    by (simp add: numeral_2_eq_2)
  have served: "serving ?s = 1"
    by (simp add: init_system_def StorageBackend_init_def tasks2 admit_def release_def
        serving_def)
  have counter0: "current_requests (backend (init_system 2)) = 0"
    by (simp add: init_system_def StorageBackend_init_def)
  have serving0: "serving (init_system 2) = 0"
    by (simp add: init_system_def serving_def)
  have fresh: "current_requests StorageBackend_init = 0"
    by (simp add: StorageBackend_init_def)
  note inst = in_flight_bounded_and_released
    [OF start mem, of StorageBackend_init "''A0001''" HOT 1 Cancelled]
  from inst have "current_requests (backend ?s) - int (serving ?s)
      = current_requests (backend (init_system 2)) - int (serving (init_system 2))"
    by (rule conjunct1 [OF conjunct2])
  then have counter: "current_requests (backend ?s) = 1"
    unfolding served counter0 serving0 by linarith
  from inst have "current_requests (fst (retrieve_artifact StorageBackend_init ''A0001'' HOT 1 Cancelled))
      = current_requests StorageBackend_init"
    by (rule conjunct2 [OF conjunct2])
  then have alone: "current_requests (fst (retrieve_artifact StorageBackend_init ''A0001'' HOT 1 Cancelled)) = 0"
    unfolding fresh .
  from start mem counter served alone show ?thesis
    by (intro conjI)
qed

text \<open>
  C9: \<^verbatim>\<open>retrieve_artifact\<close> raises the overload error exactly when, at admission,
  \<^verbatim>\<open>current_requests\<close> is at or above \<^verbatim>\<open>max_concurrent_requests\<close>, and a call that is
  rejected leaves the backend, and with it the counter, as it was.
\<close>

theorem retrieve_artifact_overloaded:
  "(snd (retrieve_artifact b i tier jitter r) = Inl system_overloaded \<longleftrightarrow>
      current_requests b \<ge> max_concurrent_requests b) \<and>
   (snd (retrieve_artifact b i tier jitter r) = Inl system_overloaded \<longrightarrow>
      fst (retrieve_artifact b i tier jitter r) = b)"
  using overload_iff_at_limit [of b i tier jitter r]
    rejected_call_unchanged [of b i tier jitter r]
  by blast

theorem retrieve_artifact_overloaded_witness:
  "snd (retrieve_artifact full_backend ''A0001'' HOT 1 Slept) = Inl system_overloaded \<and>
   current_requests full_backend \<ge> max_concurrent_requests full_backend \<and>
   current_requests (fst (retrieve_artifact full_backend ''A0001'' HOT 1 Slept)) = 1000"
proof -
  have full: "current_requests full_backend \<ge> max_concurrent_requests full_backend"
    by (simp add: full_backend_def StorageBackend_init_def)
  show ?thesis
    using full retrieve_artifact_overloaded [of full_backend "''A0001''" HOT 1 Slept]
    by (simp add: full_backend_def StorageBackend_init_def)
qed

end
